theory Spec2Isabelle
  imports Main "HOL-Library.AList" "HOL-Library.Word"
begin

unbundle bit_operations_syntax

section \<open>Strings, variants and configuration data\<close>

text \<open>
  Shallow embedding of \<^verbatim>\<open>configurator/src/MainWindow.cpp\<close>.
  A \<^verbatim>\<open>QString\<close> and a \<^verbatim>\<open>QByteArray\<close> are character lists. The data of a
  \<^verbatim>\<open>Configuration::Object\<close> is a key/value map (a \<^verbatim>\<open>QMap\<close>), kept here as an
  association list that is only ever read through its keys and \<open>map_of\<close>.
\<close>

type_synonym QString = string
type_synonym QByteArray = string

datatype QVariant =
    VString QString
  | VBytes QByteArray
  | VMap "(QString \<times> QVariant) list"

type_synonym DataMap = "(QString \<times> QVariant) list"

subsection \<open>\<^verbatim>\<open>QString::endsWith\<close>\<close>

datatype CaseSensitivity = CaseInsensitive | CaseSensitive

text \<open>Case folding of one character: the letters A..Z go to a..z, every other
  character stays.\<close>

definition foldCase :: "char \<Rightarrow> char" where
  "foldCase c =
     (let n = (of_char c :: nat) in if 65 \<le> n \<and> n \<le> 90 then char_of (n + 32) else c)"

definition equalStrings :: "CaseSensitivity \<Rightarrow> QString \<Rightarrow> QString \<Rightarrow> bool" where
  "equalStrings cs a b =
     (case cs of CaseSensitive \<Rightarrow> a = b
               | CaseInsensitive \<Rightarrow> map foldCase a = map foldCase b)"

text \<open>\<^verbatim>\<open>s.endsWith( p, cs )\<close>: the last \<open>length p\<close> characters of \<open>s\<close> are compared
  with \<open>p\<close>; a needle longer than the haystack never matches.\<close>

definition endsWith :: "QString \<Rightarrow> QString \<Rightarrow> CaseSensitivity \<Rightarrow> bool" where
  "endsWith s p cs =
     (length p \<le> length s \<and> equalStrings cs (drop (length s - length p) s) p)"

subsection \<open>\<^verbatim>\<open>QFileInfo::baseName\<close>\<close>

text \<open>The file name is what follows the last slash of a path; the base name is the
  file name up to, and without, its first dot.\<close>

definition fileName :: "QString \<Rightarrow> QString" where
  "fileName p = rev (takeWhile (\<lambda>c. c \<noteq> CHR ''/'') (rev p))"

definition baseName :: "QString \<Rightarrow> QString" where
  "baseName p = takeWhile (\<lambda>c. c \<noteq> CHR ''.'') (fileName p)"

subsection \<open>\<^verbatim>\<open>QByteArray::trimmed\<close>\<close>

text \<open>White space is tab, line feed, vertical tab, form feed, carriage return and
  space; it is removed from both ends.\<close>

definition isSpace :: "char \<Rightarrow> bool" where
  "isSpace c = (let n = (of_char c :: nat) in (9 \<le> n \<and> n \<le> 13) \<or> n = 32)"

definition trimmed :: "QByteArray \<Rightarrow> QByteArray" where
  "trimmed b = rev (dropWhile isSpace (rev (dropWhile isSpace b)))"

subsection \<open>\<^verbatim>\<open>QString::arg\<close>\<close>

text \<open>A place marker is a percent sign, an optional \<open>L\<close>, and one or two decimal
  digits. \<open>marker\<close> reads what follows a percent sign and gives the number of the
  marker and how many characters it takes.\<close>

definition digitValue :: "char \<Rightarrow> nat option" where
  "digitValue c =
     (let n = (of_char c :: nat) in if 48 \<le> n \<and> n \<le> 57 then Some (n - 48) else None)"

definition marker :: "QString \<Rightarrow> (nat \<times> nat) option" where
  "marker cs =
     (let (l, ds) = (case cs of [] \<Rightarrow> (0, [])
                               | c # r \<Rightarrow> if c = CHR ''L'' then (1, r) else (0, cs))
      in case ds of
           [] \<Rightarrow> None
         | d1 # r \<Rightarrow>
             (case digitValue d1 of
                None \<Rightarrow> None
              | Some a \<Rightarrow>
                  (case r of
                     [] \<Rightarrow> Some (a, l + 1)
                   | d2 # _ \<Rightarrow>
                       (case digitValue d2 of
                          None \<Rightarrow> Some (a, l + 1)
                        | Some b \<Rightarrow> Some (10 * a + b, l + 2)))))"

datatype token = Lit char | Esc nat QString

function scanEscapes :: "QString \<Rightarrow> token list" where
  "scanEscapes [] = []"
| "scanEscapes (c # cs) =
     (if c = CHR ''%''
      then (case marker cs of
              Some (n, len) \<Rightarrow> Esc n (c # take len cs) # scanEscapes (drop len cs)
            | None \<Rightarrow> Lit c # scanEscapes cs)
      else Lit c # scanEscapes cs)"
  by pat_completeness auto
termination
  by (relation "measure length") auto

definition escapeNumbers :: "token list \<Rightarrow> nat list" where
  "escapeNumbers toks = concat (map (\<lambda>t. case t of Lit _ \<Rightarrow> [] | Esc n _ \<Rightarrow> [n]) toks)"

text \<open>\<^verbatim>\<open>s.arg( a )\<close>: every occurrence of the lowest-numbered place marker of \<open>s\<close> is
  replaced by \<open>a\<close>; a string without place markers is returned as it is.\<close>

definition arg :: "QString \<Rightarrow> QString \<Rightarrow> QString" where
  "arg s a =
     (let toks = scanEscapes s; ns = escapeNumbers toks
      in if ns = [] then s
         else (let lowest = foldr min ns (hd ns)
               in concat (map (\<lambda>t. case t of Lit c \<Rightarrow> [c]
                                            | Esc n raw \<Rightarrow> if n = lowest then a else raw) toks)))"

text \<open>The decimal digits of a number, as \<^verbatim>\<open>arg\<close> renders an unsigned integer.\<close>

definition digitChar :: "nat \<Rightarrow> char" where
  "digitChar d = ''0123456789'' ! d"

function decimal :: "nat \<Rightarrow> QString" where
  "decimal n = (if n < 10 then [digitChar n]
                else decimal (n div 10) @ [digitChar (n mod 10)])"
  by pat_completeness auto
termination
  by (relation "measure id") auto

subsection \<open>\<^verbatim>\<open>Configuration::Object\<close>\<close>

text \<open>Modelled from the spec: \<^verbatim>\<open>Configuration::Object::clear\<close> is not under src/.
  The spec says the snapshot is cleared before the layers are merged again.\<close>

definition clear :: "DataMap \<Rightarrow> DataMap" where
  "clear d = []"

text \<open>Modelled from the spec: \<^verbatim>\<open>Configuration::Object::operator+=\<close> is not under
  src/. The spec says layers are applied in order and a later layer overrides an
  earlier one on key collision; keys of the earlier layer that the later one does not
  define are kept.\<close>

definition merge_data :: "DataMap \<Rightarrow> DataMap \<Rightarrow> DataMap" where
  "merge_data d layer = AList.merge d layer"

text \<open>\<^verbatim>\<open>data().size()\<close>: the number of keys of the map.\<close>

definition data_size :: "DataMap \<Rightarrow> nat" where
  "data_size d = length (remdups (map fst d))"

text \<open>The entries of a top-level group, empty when the group is absent or not a map.\<close>

definition group :: "QString \<Rightarrow> DataMap \<Rightarrow> DataMap" where
  "group g d = (case map_of d g of Some (VMap m) \<Rightarrow> m | _ \<Rightarrow> [])"

text \<open>Modelled from the spec: \<^verbatim>\<open>Configuration::Object::setValue( key, value, parentKey )\<close>
  is not under src/. The spec describes the document as a tree with top-level groups
  whose entries map a key to a value, and has values written into a group and stored
  under a key in it. The spec does not say when a group comes into being: in this model
  a group is there from the first value written into it, the window making no other
  call that names a group.\<close>

definition setValue :: "QString \<Rightarrow> QVariant \<Rightarrow> QString \<Rightarrow> DataMap \<Rightarrow> DataMap" where
  "setValue key val parentKey d = AList.update parentKey (VMap (AList.update key val (group parentKey d))) d"

text \<open>Modelled from the spec: \<^verbatim>\<open>Configuration::Object::addSubObject( obj, parentKey )\<close>
  is not under src/. The spec says the whole configuration snapshot is embedded as a
  nested object under the group.\<close>

definition addSubObject :: "DataMap \<Rightarrow> QString \<Rightarrow> DataMap \<Rightarrow> DataMap" where
  "addSubObject sub parentKey d = AList.update parentKey (VMap sub) d"

section \<open>The window and its collaborators\<close>

datatype StoreScope = System | BugReportArchive

text \<open>What the window does to its collaborators, in the order it does it: dialogs and
  messages, store calls, calls to the pages, files read, directories listed, processes
  run and system queries. A page event carries the index of the page and the snapshot
  the page sees at that moment, the information message its title and its text.\<close>

datatype event =
    PageResetWidgets nat DataMap
  | PageApplyConfiguration nat DataMap
  | ApplyConfigurationCall DataMap
  | GetOpenFileName
  | GetSaveFileName
  | FileSystemBrowserExec
  | JsonStoreLoad StoreScope QString
  | JsonStoreFlush StoreScope QString DataMap
  | QFileReadAll QString
  | QDirEntryList QString "QString list"
  | QProcessRun QString "QString list"
  | GetVersionEx
  | QSysInfoWindowsVersion
  | SystemEnvironmentValue QString
  | MessageBoxQuestion
  | MessageBoxInformation QString QString
  | CloseEventIgnore
  | CloseEventAccept

text \<open>\<open>config\<close> is the global \<^verbatim>\<open>ItalcCore::config()\<close>, \<open>buttonBoxEnabled\<close> the enabled
  state of \<^verbatim>\<open>ui->buttonBox\<close>, \<open>pages\<close> the number of \<^verbatim>\<open>ConfigurationPage\<close> children,
  \<open>files\<close> the JSON documents on disk by path, \<open>trace\<close> the calls made so far.\<close>

record MainWindow =
  config :: DataMap
  buttonBoxEnabled :: bool
  m_configChanged :: bool
  pages :: nat
  files :: "QString \<Rightarrow> DataMap option"
  trace :: "event list"

datatype Platform = BuildWin32 | BuildLinux
datatype Host = HostX86 | HostX86_64 | HostOther

datatype WinVersion =
    WV_NT | WV_2000 | WV_XP | WV_VISTA | WV_WINDOWS7 | WV_WINDOWS8 | WV_WINDOWS8_1
  | WV_WINDOWS10 | WV_Other

record OSVERSIONINFOEX =
  wServicePackMajor :: "16 word"
  dwMajorVersion :: "32 word"
  dwMinorVersion :: "32 word"
  dwBuildNumber :: "32 word"

text \<open>The collaborators whose code is not in this file, as the answers they give.
  \<open>jsonLoad\<close> is what \<^verbatim>\<open>JsonStore::load\<close> leaves in the object, from the document
  on disk (if any) and the data the object had. \<open>flushOk\<close> says whether the write of
  \<^verbatim>\<open>JsonStore::flush\<close> succeeds; the window never looks at it. \<open>loadEmits\<close> and
  \<open>flushEmits\<close> say whether the configuration object, handed to the store by pointer,
  emits \<^verbatim>\<open>configurationChanged\<close> during the call: the constructor connects that signal
  to the slot of the window. \<open>readAll\<close> is the content of a file that is opened and
  read (empty when it cannot be opened), \<open>processOutput\<close> what a finished process has
  written, \<open>entryList\<close> the names in a directory that pass the name filters, \<open>tr\<close> the
  translation of a source text, \<open>QDTNS\<close> the macro of that name applied to a path.\<close>

record Externals =
  defaultConfiguration :: DataMap
  localBackend :: DataMap
  applyConfiguration :: "DataMap \<Rightarrow> bool"
  jsonLoad :: "DataMap option \<Rightarrow> DataMap \<Rightarrow> DataMap"
  flushOk :: bool
  loadEmits :: bool
  flushEmits :: bool
  platform :: Platform
  host :: Host
  windowsVersion :: WinVersion
  versionInfo :: OSVERSIONINFOEX
  environmentValue :: "QString \<Rightarrow> QString"
  processOutput :: "QString \<Rightarrow> QString list \<Rightarrow> QByteArray"
  applicationName :: QString
  tr :: "QString \<Rightarrow> QString"
  QDTNS :: "QString \<Rightarrow> QString"
  ITALC_VERSION :: QString
  logFileDirectory :: "DataMap \<Rightarrow> QString"
  expand :: "QString \<Rightarrow> QString"
  entryList :: "QString \<Rightarrow> QString list \<Rightarrow> QString list"
  absoluteFilePath :: "QString \<Rightarrow> QString \<Rightarrow> QString"
  readAll :: "QString \<Rightarrow> QByteArray"
  qCompress :: "QByteArray \<Rightarrow> QByteArray"
  toBase64 :: "QByteArray \<Rightarrow> QByteArray"

definition emit :: "event list \<Rightarrow> MainWindow \<Rightarrow> MainWindow" where
  "emit es s = s\<lparr>trace := trace s @ es\<rparr>"

text \<open>\<^verbatim>\<open>JsonStore( scope, path ).flush( obj )\<close>: the document reaches the disk when the
  write succeeds.\<close>

definition flush :: "Externals \<Rightarrow> StoreScope \<Rightarrow> QString \<Rightarrow> DataMap \<Rightarrow> MainWindow \<Rightarrow> MainWindow" where
  "flush env scope path d s =
     (let s1 = emit [JsonStoreFlush scope path d] s
      in if flushOk env then s1\<lparr>files := (files s1)(path \<mapsto> d)\<rparr> else s1)"

subsection \<open>\<^verbatim>\<open>MainWindow::reset\<close>, \<^verbatim>\<open>apply\<close>, \<^verbatim>\<open>configurationChanged\<close>\<close>

definition reset :: "Externals \<Rightarrow> bool \<Rightarrow> MainWindow \<Rightarrow> MainWindow" where
  "reset env onlyUI s =
     (let s1 = (if onlyUI = False
                then s\<lparr>config :=
                        merge_data (merge_data (clear (config s)) (defaultConfiguration env))
                                   (localBackend env)\<rparr>
                else s);
          s2 = emit (map (\<lambda>i. PageResetWidgets i (config s1)) [0..<pages s1]) s1
      in s2\<lparr>buttonBoxEnabled := False, m_configChanged := False\<rparr>)"

definition apply_window :: "Externals \<Rightarrow> MainWindow \<Rightarrow> MainWindow" where
  "apply_window env s =
     (let s1 = emit [ApplyConfigurationCall (config s)] s
      in if applyConfiguration env (config s)
         then (let s2 = emit (map (\<lambda>i. PageApplyConfiguration i (config s1)) [0..<pages s1]) s1
               in s2\<lparr>buttonBoxEnabled := False, m_configChanged := False\<rparr>)
         else s1)"

definition configurationChanged :: "MainWindow \<Rightarrow> MainWindow" where
  "configurationChanged s = s\<lparr>buttonBoxEnabled := True, m_configChanged := True\<rparr>"

text \<open>The slot runs when the configuration object emits its signal.\<close>

definition signalled :: "bool \<Rightarrow> MainWindow \<Rightarrow> MainWindow" where
  "signalled emitted s = (if emitted then configurationChanged s else s)"

subsection \<open>\<^verbatim>\<open>MainWindow::resetOrApply\<close>\<close>

definition QDialogButtonBox_Apply :: "32 word" where
  "QDialogButtonBox_Apply = 0x02000000"

definition QDialogButtonBox_Reset :: "32 word" where
  "QDialogButtonBox_Reset = 0x04000000"

text \<open>\<open>btn\<close> is the value of \<^verbatim>\<open>ui->buttonBox->standardButton( btn )\<close>.\<close>

definition resetOrApply :: "Externals \<Rightarrow> 32 word \<Rightarrow> MainWindow \<Rightarrow> MainWindow" where
  "resetOrApply env btn s =
     (if btn AND QDialogButtonBox_Apply \<noteq> 0 then apply_window env s
      else if btn AND QDialogButtonBox_Reset \<noteq> 0 then reset env False s
      else s)"

subsection \<open>The constructor\<close>

text \<open>\<open>pre\<close> is what \<^verbatim>\<open>setupUi\<close> and the process leave behind: the global
  configuration, the button box and the pages as they are before the constructor body.\<close>

definition MainWindow_ctor :: "Externals \<Rightarrow> MainWindow \<Rightarrow> MainWindow" where
  "MainWindow_ctor env pre =
     (let s0 = pre\<lparr>m_configChanged := False\<rparr>;
          s1 = reset env False s0
      in if data_size (localBackend env) < data_size (config s1)
         then configurationChanged s1 else s1)"

subsection \<open>Loading and saving settings\<close>

text \<open>\<open>fileName\<close> arguments are the results of the file dialogs; the empty string is
  a cancelled dialog.\<close>

definition loadSettingsFromFile :: "Externals \<Rightarrow> QString \<Rightarrow> MainWindow \<Rightarrow> MainWindow" where
  "loadSettingsFromFile env chosen s =
     (let s0 = emit [GetOpenFileName] s
      in if chosen \<noteq> []
         then (let s1 = emit [JsonStoreLoad System chosen] s0;
                   s2 = signalled (loadEmits env)
                          (s1\<lparr>config := jsonLoad env (files s1 chosen) (config s1)\<rparr>);
                   s3 = reset env True s2
               in configurationChanged s3)
         else s0)"

definition settingsPath :: "QString \<Rightarrow> QString" where
  "settingsPath chosen =
     (if \<not> endsWith chosen ''.json'' CaseInsensitive then chosen @ ''.json'' else chosen)"

definition saveSettingsToFile :: "Externals \<Rightarrow> QString \<Rightarrow> MainWindow \<Rightarrow> MainWindow" where
  "saveSettingsToFile env chosen s =
     (let s0 = emit [GetSaveFileName] s
      in if chosen \<noteq> []
         then (let path = settingsPath chosen;
                   configChangedPrevious = m_configChanged s0;
                   s1 = signalled (flushEmits env) (flush env System path (config s0) s0);
                   s2 = s1\<lparr>m_configChanged := configChangedPrevious\<rparr>
               in s2\<lparr>buttonBoxEnabled := m_configChanged s2\<rparr>)
         else s0)"

subsection \<open>\<^verbatim>\<open>MainWindow::generateBugReportArchive\<close>\<close>

definition bugReportPath :: "QString \<Rightarrow> QString" where
  "bugReportPath outfile =
     (if \<not> endsWith outfile ''.json'' CaseSensitive then outfile @ ''.json'' else outfile)"

definition buildType :: "Host \<Rightarrow> QString" where
  "buildType h = (case h of HostX86 \<Rightarrow> ''x86'' | HostX86_64 \<Rightarrow> ''x86_64'' | HostOther \<Rightarrow> ''unknown'')"

text \<open>The system information of lines 219 to 259, by platform: the calls made, the
  operating system string and the machine string. The character \<open>0x0A\<close> is the line
  feed.\<close>

definition windowsName :: "WinVersion \<Rightarrow> QString" where
  "windowsName v =
     (case v of WV_NT \<Rightarrow> ''NT 4.0'' | WV_2000 \<Rightarrow> ''2000'' | WV_XP \<Rightarrow> ''XP''
              | WV_VISTA \<Rightarrow> ''Vista'' | WV_WINDOWS7 \<Rightarrow> ''7'' | WV_WINDOWS8 \<Rightarrow> ''8''
              | WV_WINDOWS8_1 \<Rightarrow> ''8.1'' | WV_WINDOWS10 \<Rightarrow> ''10''
              | WV_Other \<Rightarrow> ''<unknown>'')"

definition systemInfoCalls :: "Externals \<Rightarrow> event list" where
  "systemInfoCalls env =
     (case platform env of
        BuildWin32 \<Rightarrow>
          [GetVersionEx, QSysInfoWindowsVersion, SystemEnvironmentValue ''PROCESSOR_IDENTIFIER'']
      | BuildLinux \<Rightarrow>
          [QFileReadAll ''/etc/lsb-release'', QProcessRun ''uname'' [''-a'']])"

definition osString :: "Externals \<Rightarrow> QString" where
  "osString env =
     (case platform env of
        BuildWin32 \<Rightarrow>
          (let ovi = versionInfo env;
               os0 = ''Windows %1 SP%2 (%3.%4.%5)'';
               os1 = arg os0 (windowsName (windowsVersion env))
           in arg (arg (arg (arg os1 (decimal (unat (wServicePackMajor ovi))))
                             (decimal (unat (dwMajorVersion ovi))))
                        (decimal (unat (dwMinorVersion ovi))))
                  (decimal (unat (dwBuildNumber ovi))))
      | BuildLinux \<Rightarrow> ''Linux'' @ [CHR 0x0A] @ trimmed (readAll env ''/etc/lsb-release''))"

definition machineInfoString :: "Externals \<Rightarrow> QString" where
  "machineInfoString env =
     (case platform env of
        BuildWin32 \<Rightarrow> environmentValue env ''PROCESSOR_IDENTIFIER''
      | BuildLinux \<Rightarrow> trimmed (processOutput env ''uname'' [''-a'']))"

text \<open>The temporary directory of a Windows build; the character \<open>0x5C\<close> is the
  backslash.\<close>

definition windowsTemp :: QString where
  "windowsTemp = ''C:'' @ [CHR 0x5C] @ ''Windows'' @ [CHR 0x5C] @ ''Temp''"

definition logPaths :: "Externals \<Rightarrow> DataMap \<Rightarrow> QString list" where
  "logPaths env cfg =
     [expand env (logFileDirectory env cfg),
      (case platform env of BuildWin32 \<Rightarrow> windowsTemp | BuildLinux \<Rightarrow> ''/tmp'')]"

text \<open>The names the inner loop runs over in one directory.\<close>

definition logNames :: "Externals \<Rightarrow> QString \<Rightarrow> QString list" where
  "logNames env p = entryList env p [''Italc*.log'']"

text \<open>The log files in the order the two nested loops visit them, each as the
  absolute path that is opened, and the calls the loops make.\<close>

definition logFiles :: "Externals \<Rightarrow> DataMap \<Rightarrow> QString list" where
  "logFiles env cfg =
     concat (map (\<lambda>p. map (absoluteFilePath env p) (logNames env p)) (logPaths env cfg))"

definition logCalls :: "Externals \<Rightarrow> DataMap \<Rightarrow> event list" where
  "logCalls env cfg =
     concat (map (\<lambda>p. QDirEntryList p [''Italc*.log'']
                        # map (\<lambda>f. QFileReadAll (absoluteFilePath env p f)) (logNames env p))
                 (logPaths env cfg))"

definition logData :: "Externals \<Rightarrow> QString \<Rightarrow> QVariant" where
  "logData env f = VBytes (toBase64 env (qCompress env (readAll env f)))"

definition addLogFile :: "Externals \<Rightarrow> DataMap \<Rightarrow> QString \<Rightarrow> DataMap" where
  "addLogFile env obj f = setValue (baseName f) (logData env f) ''LogFiles'' obj"

text \<open>Modelled from the spec: the constructor \<^verbatim>\<open>Configuration::Object( Store * )\<close>
  is not under src/. The spec calls the document write-once, built fully in memory and
  then flushed. What the fresh object holds is not said there: in this model it holds
  nothing, so the document is what the window writes into it.\<close>

definition newObject :: DataMap where
  "newObject = []"

text \<open>The object that is flushed: the four values of \<open>General\<close>, the configuration,
  then the log files.\<close>

definition bugReportObject :: "Externals \<Rightarrow> DataMap \<Rightarrow> DataMap" where
  "bugReportObject env cfg =
     (let obj0 = newObject;
          obj1 = setValue ''OS'' (VString (osString env)) ''General'' obj0;
          obj2 = setValue ''MachineInfo'' (VString (machineInfoString env)) ''General'' obj1;
          obj3 = setValue ''BuildType'' (VString (buildType (host env))) ''General'' obj2;
          obj4 = setValue ''Version'' (VString (ITALC_VERSION env)) ''General'' obj3;
          obj5 = addSubObject cfg ''Configuration'' obj4
      in foldl (addLogFile env) obj5 (logFiles env cfg))"

text \<open>The confirmation: its title and its text, the place markers filled in the order
  of the chained calls.\<close>

definition savedTitle :: "Externals \<Rightarrow> QString" where
  "savedTitle env = arg (tr env ''%1 bug report archive saved'') (applicationName env)"

definition savedText :: "Externals \<Rightarrow> QString \<Rightarrow> QString" where
  "savedText env outfile =
     arg (arg (arg (tr env (''An %1 bug report archive has been saved to %2. ''
                            @ ''It includes %3 log files and information about your ''
                            @ ''operating system. You can attach it to a bug report.''))
                   (applicationName env))
              (QDTNS env outfile))
         (applicationName env)"

definition generateBugReportArchive :: "Externals \<Rightarrow> QString \<Rightarrow> MainWindow \<Rightarrow> MainWindow" where
  "generateBugReportArchive env chosen s =
     (let s0 = emit [FileSystemBrowserExec] s
      in if chosen = [] then s0
         else (let outfile = bugReportPath chosen;
                   s1 = emit (systemInfoCalls env) s0;
                   s2 = emit (logCalls env (config s1)) s1;
                   s3 = flush env BugReportArchive outfile (bugReportObject env (config s2)) s2
               in emit [MessageBoxInformation (savedTitle env) (savedText env outfile)] s3))"

subsection \<open>\<^verbatim>\<open>MainWindow::closeEvent\<close>\<close>

definition QMessageBox_Yes :: "32 word" where
  "QMessageBox_Yes = 0x00004000"

definition QMessageBox_No :: "32 word" where
  "QMessageBox_No = 0x00010000"

text \<open>\<open>answer\<close> is what \<^verbatim>\<open>QMessageBox::question\<close> returns if it is shown; the result
  pairs the accepted flag of the close event with the window.\<close>

definition closeEvent :: "32 word \<Rightarrow> MainWindow \<Rightarrow> bool \<times> MainWindow" where
  "closeEvent answer s =
     (if m_configChanged s
      then (let s1 = emit [MessageBoxQuestion] s
            in if answer \<noteq> QMessageBox_Yes
               then (False, emit [CloseEventIgnore] s1)
               else (True, emit [CloseEventAccept] s1))
      else (True, emit [CloseEventAccept] s))"

subsection \<open>Runs of the window\<close>

datatype action =
    Reset bool
  | Apply
  | ConfigurationChanged
  | ResetOrApply "32 word"
  | LoadSettingsFromFile QString
  | SaveSettingsToFile QString
  | GenerateBugReportArchive QString
  | CloseEvent "32 word"

fun step :: "MainWindow \<Rightarrow> Externals \<times> action \<Rightarrow> MainWindow" where
  "step s (env, Reset onlyUI) = reset env onlyUI s"
| "step s (env, Apply) = apply_window env s"
| "step s (env, ConfigurationChanged) = configurationChanged s"
| "step s (env, ResetOrApply btn) = resetOrApply env btn s"
| "step s (env, LoadSettingsFromFile chosen) = loadSettingsFromFile env chosen s"
| "step s (env, SaveSettingsToFile chosen) = saveSettingsToFile env chosen s"
| "step s (env, GenerateBugReportArchive chosen) = generateBugReportArchive env chosen s"
| "step s (env, CloseEvent answer) = snd (closeEvent answer s)"

definition run :: "MainWindow \<Rightarrow> (Externals \<times> action) list \<Rightarrow> MainWindow" where
  "run s acts = foldl step s acts"

subsection \<open>Sample collaborators and windows\<close>

definition sampleExternals :: "bool \<Rightarrow> QString list \<Rightarrow> Externals" where
  "sampleExternals ok logs =
     \<lparr> defaultConfiguration = [(''LogLevel'', VString ''4''), (''Port'', VString ''11100'')],
       localBackend = [(''Port'', VString ''5900'')],
       applyConfiguration = (\<lambda>_. ok),
       jsonLoad = (\<lambda>doc d. case doc of None \<Rightarrow> d | Some x \<Rightarrow> x),
       flushOk = ok,
       loadEmits = True,
       flushEmits = True,
       platform = BuildLinux,
       host = HostX86_64,
       windowsVersion = WV_WINDOWS10,
       versionInfo = \<lparr> wServicePackMajor = 0, dwMajorVersion = 10, dwMinorVersion = 0,
                       dwBuildNumber = 19045 \<rparr>,
       environmentValue = (\<lambda>_. ''Intel64 Family 6''),
       processOutput = (\<lambda>_ _. ''Linux lab 6.1 x86_64 GNU/Linux'' @ [CHR 0x0A]),
       applicationName = ''iTALC'',
       tr = (\<lambda>t. t),
       QDTNS = (\<lambda>p. p),
       ITALC_VERSION = ''3.0.0'',
       logFileDirectory = (\<lambda>_. ''$TEMP''),
       expand = (\<lambda>p. if p = ''$TEMP'' then ''/var/log/italc'' else p),
       entryList = (\<lambda>p filters. if filters = [''Italc*.log''] \<and> p = ''/var/log/italc''
                                    then logs else []),
       absoluteFilePath = (\<lambda>d f. d @ ''/'' @ f),
       readAll = (\<lambda>p. if p = ''/etc/lsb-release'' then ''DISTRIB_ID=Debian'' @ [CHR 0x0A]
                           else ''contents of '' @ p),
       qCompress = (\<lambda>b. ''z('' @ b @ '')''),
       toBase64 = (\<lambda>b. ''b64('' @ b @ '')'') \<rparr>"



definition sampleWindow :: "bool \<Rightarrow> MainWindow" where
  "sampleWindow dirty =
     \<lparr> config = [(''Port'', VString ''5900'')],
       buttonBoxEnabled = dirty,
       m_configChanged = dirty,
       pages = 2,
       files = (\<lambda>_. None),
       trace = [] \<rparr>"

section \<open>Properties\<close>

subsection \<open>Path normalisation\<close>

lemma endsWith_sensitive: "endsWith f p CaseSensitive \<longleftrightarrow> (\<exists>pre. f = pre @ p)"
proof
  assume "endsWith f p CaseSensitive"
  then have "drop (length f - length p) f = p"
    by (simp add: endsWith_def equalStrings_def)
  then have "f = take (length f - length p) f @ p"
    by (metis append_take_drop_id)
  then show "\<exists>pre. f = pre @ p" ..
next
  assume "\<exists>pre. f = pre @ p"
  then obtain pre where "f = pre @ p" ..
  then show "endsWith f p CaseSensitive"
    by (simp add: endsWith_def equalStrings_def)
qed

lemma endsWith_insensitive:
  "endsWith f p CaseInsensitive \<longleftrightarrow> (\<exists>pre suf. f = pre @ suf \<and> map foldCase suf = map foldCase p)"
proof
  assume "endsWith f p CaseInsensitive"
  then have "map foldCase (drop (length f - length p) f) = map foldCase p"
    by (simp add: endsWith_def equalStrings_def)
  moreover have "f = take (length f - length p) f @ drop (length f - length p) f"
    by simp
  ultimately show "\<exists>pre suf. f = pre @ suf \<and> map foldCase suf = map foldCase p"
    by blast
next
  assume "\<exists>pre suf. f = pre @ suf \<and> map foldCase suf = map foldCase p"
  then obtain pre suf where f: "f = pre @ suf" and m: "map foldCase suf = map foldCase p"
    by blast
  from m have "length suf = length p"
    by (metis length_map)
  with f m show "endsWith f p CaseInsensitive"
    by (simp add: endsWith_def equalStrings_def)
qed

lemma foldCase_json: "map foldCase ''.json'' = ''.json''"
  by (simp add: foldCase_def)

lemma sensitive_imp_insensitive:
  "endsWith f ''.json'' CaseSensitive \<Longrightarrow> endsWith f ''.json'' CaseInsensitive"
  by (auto simp add: endsWith_def equalStrings_def foldCase_json)

text \<open>
  C3. The two path rules differ exactly in their comparison: the settings path keeps a
  name that ends in \<open>.json\<close> in any mix of upper and lower case and appends
  \<open>.json\<close> to every other name; the bug-report path keeps a name only when it ends
  in \<open>.json\<close> letter for letter. So \<open>report.JSON\<close> stays as it is for the settings
  and becomes \<open>report.JSON.json\<close> for the bug report, and \<open>report\<close> becomes
  \<open>report.json\<close>.
\<close>
theorem path_normalisation:
  "settingsPath f = (if \<exists>pre suf. f = pre @ suf \<and> map foldCase suf = ''.json'' then f else f @ ''.json'')
   \<and> bugReportPath f = (if \<exists>pre. f = pre @ ''.json'' then f else f @ ''.json'')
   \<and> (settingsPath f \<noteq> bugReportPath f
        \<longleftrightarrow> endsWith f ''.json'' CaseInsensitive \<and> \<not> endsWith f ''.json'' CaseSensitive)
   \<and> settingsPath ''report.JSON'' = ''report.JSON''
   \<and> bugReportPath ''report'' = ''report.json''
   \<and> bugReportPath ''report.JSON'' = ''report.JSON.json''"
proof -
  have s: "settingsPath f = (if \<exists>pre suf. f = pre @ suf \<and> map foldCase suf = ''.json'' then f else f @ ''.json'')"
    unfolding settingsPath_def endsWith_insensitive foldCase_json by simp
  have b: "bugReportPath f = (if \<exists>pre. f = pre @ ''.json'' then f else f @ ''.json'')"
    unfolding bugReportPath_def endsWith_sensitive by simp
  have d: "settingsPath f \<noteq> bugReportPath f
        \<longleftrightarrow> endsWith f ''.json'' CaseInsensitive \<and> \<not> endsWith f ''.json'' CaseSensitive"
    using sensitive_imp_insensitive [of f]
    by (auto simp add: settingsPath_def bugReportPath_def)
  have e1: "settingsPath ''report.JSON'' = ''report.JSON''" by code_simp
  have e2: "bugReportPath ''report'' = ''report.json''" by code_simp
  have e3: "bugReportPath ''report.JSON'' = ''report.JSON.json''" by code_simp
  from s b d e1 e2 e3 show ?thesis by blast
qed

theorem path_normalisation_witness:
  "endsWith ''Report.Json'' ''.json'' CaseInsensitive \<and> \<not> endsWith ''Report.Json'' ''.json'' CaseSensitive
   \<and> settingsPath ''Report.Json'' \<noteq> bugReportPath ''Report.Json''"
proof -
  have ci: "endsWith ''Report.Json'' ''.json'' CaseInsensitive" by code_simp
  have cs: "\<not> endsWith ''Report.Json'' ''.json'' CaseSensitive" by code_simp
  from ci cs path_normalisation [of "''Report.Json''"] show ?thesis by blast
qed

subsection \<open>The window\<close>

lemmas window_defs = emit_def flush_def signalled_def configurationChanged_def reset_def apply_window_def

lemma sample_layers:
  "defaultConfiguration (sampleExternals ok logs) = [(''LogLevel'', VString ''4''), (''Port'', VString ''11100'')]"
  "localBackend (sampleExternals ok logs) = [(''Port'', VString ''5900'')]"
  "applyConfiguration (sampleExternals ok logs) c = ok"
  "flushOk (sampleExternals ok logs) = ok"
  "jsonLoad (sampleExternals ok logs) None d = d"
  "jsonLoad (sampleExternals ok logs) (Some x) d = x"
  by (simp_all add: sampleExternals_def)

lemma sample_window:
  "config (sampleWindow dirty) = [(''Port'', VString ''5900'')]"
  "m_configChanged (sampleWindow dirty) = dirty"
  "buttonBoxEnabled (sampleWindow dirty) = dirty"
  "files (sampleWindow dirty) = (\<lambda>_. None)"
  "trace (sampleWindow dirty) = []"
  "pages (sampleWindow dirty) = 2"
  by (simp_all add: sampleWindow_def)

lemma merge_layers:
  "map_of (merge_data (merge_data (clear d) dflt) loc) k =
     (case map_of loc k of Some v \<Rightarrow> Some v | None \<Rightarrow> map_of dflt k)"
  by (simp add: merge_data_def clear_def merge_conv' map_add_def split: option.split)

text \<open>
  C1. From every state, \<open>apply\<close> clears the dirty flag and disables the button box when
  the commit succeeds; when the commit fails the window is as before, but for the record
  of the commit call itself: flag and button keep their values and nothing is shown. A
  set flag is cleared, and an enabled button disabled, exactly when the commit succeeds.
\<close>
theorem apply_commit:
  "(applyConfiguration env (config s) \<longrightarrow>
      \<not> m_configChanged (apply_window env s) \<and> \<not> buttonBoxEnabled (apply_window env s))
   \<and> (\<not> applyConfiguration env (config s) \<longrightarrow>
      apply_window env s = s\<lparr>trace := trace s @ [ApplyConfigurationCall (config s)]\<rparr>
      \<and> m_configChanged (apply_window env s) = m_configChanged s
      \<and> buttonBoxEnabled (apply_window env s) = buttonBoxEnabled s)
   \<and> (m_configChanged s \<longrightarrow>
      (\<not> m_configChanged (apply_window env s) \<longleftrightarrow> applyConfiguration env (config s)))
   \<and> (buttonBoxEnabled s \<longrightarrow>
      (\<not> buttonBoxEnabled (apply_window env s) \<longleftrightarrow> applyConfiguration env (config s)))"
  by (simp add: apply_window_def emit_def Let_def)

theorem apply_commit_witness:
  "applyConfiguration (sampleExternals True []) (config (sampleWindow True))
   \<and> \<not> applyConfiguration (sampleExternals False []) (config (sampleWindow True))
   \<and> m_configChanged (sampleWindow True) \<and> buttonBoxEnabled (sampleWindow True)
   \<and> \<not> m_configChanged (apply_window (sampleExternals True []) (sampleWindow True))
   \<and> \<not> buttonBoxEnabled (apply_window (sampleExternals True []) (sampleWindow True))
   \<and> m_configChanged (apply_window (sampleExternals False []) (sampleWindow True))
   \<and> buttonBoxEnabled (apply_window (sampleExternals False []) (sampleWindow True))"
  using apply_commit [of "sampleExternals True []" "sampleWindow True"]
        apply_commit [of "sampleExternals False []" "sampleWindow True"]
  by (simp add: sample_layers sample_window)

text \<open>
  C2. Saving to a non-empty chosen path hands the current snapshot to the store under
  the normalised path and leaves the dirty flag at the value it had before the call,
  whether the write succeeds or not and whether or not the store makes the configuration
  signal a change; the snapshot is on disk when the write succeeds. Saving is not
  applying: a set flag stays set where a successful \<open>apply\<close> clears it.
\<close>
theorem saveSettingsToFile_keeps_dirty_flag:
  "chosen \<noteq> [] \<Longrightarrow>
     m_configChanged (saveSettingsToFile env chosen s) = m_configChanged s
   \<and> buttonBoxEnabled (saveSettingsToFile env chosen s) = m_configChanged s
   \<and> config (saveSettingsToFile env chosen s) = config s
   \<and> trace (saveSettingsToFile env chosen s) =
       trace s @ [GetSaveFileName, JsonStoreFlush System (settingsPath chosen) (config s)]
   \<and> files (saveSettingsToFile env chosen s) =
       (if flushOk env then (files s)(settingsPath chosen \<mapsto> config s) else files s)
   \<and> (m_configChanged s \<and> applyConfiguration env (config s) \<longrightarrow>
        m_configChanged (saveSettingsToFile env chosen s) \<noteq> m_configChanged (apply_window env s))"
  by (simp add: saveSettingsToFile_def window_defs Let_def)

theorem saveSettingsToFile_keeps_dirty_flag_witness:
  "''office'' \<noteq> []
   \<and> m_configChanged (saveSettingsToFile (sampleExternals True []) ''office'' (sampleWindow True))
   \<and> files (saveSettingsToFile (sampleExternals True []) ''office'' (sampleWindow True)) ''office.json''
        = Some [(''Port'', VString ''5900'')]
   \<and> m_configChanged (saveSettingsToFile (sampleExternals False []) ''office'' (sampleWindow True))
   \<and> files (saveSettingsToFile (sampleExternals False []) ''office'' (sampleWindow True)) ''office.json''
        = None
   \<and> \<not> m_configChanged (saveSettingsToFile (sampleExternals True []) ''office'' (sampleWindow False))"
proof -
  have p: "settingsPath ''office'' = ''office.json''" by code_simp
  have n: "''office'' \<noteq> []" by simp
  show ?thesis
    using saveSettingsToFile_keeps_dirty_flag [OF n, of "sampleExternals True []" "sampleWindow True"]
          saveSettingsToFile_keeps_dirty_flag [OF n, of "sampleExternals False []" "sampleWindow True"]
          saveSettingsToFile_keeps_dirty_flag [OF n, of "sampleExternals True []" "sampleWindow False"]
    by (simp add: p sample_layers sample_window)
qed

text \<open>
  C4. \<open>reset(false)\<close> replaces the snapshot by the default layer merged with the
  local-backend layer, in that order, so a key of the local backend has the local value
  and any other key its default; \<open>reset(true)\<close> leaves the snapshot as it is. Every
  \<open>reset\<close> then resets the widgets of each page against the resulting snapshot, clears
  the dirty flag and disables the button box.
\<close>
theorem reset_layers:
  "config (reset env False s) =
      merge_data (merge_data [] (defaultConfiguration env)) (localBackend env)
   \<and> map_of (config (reset env False s)) k =
      (case map_of (localBackend env) k of Some v \<Rightarrow> Some v
                                         | None \<Rightarrow> map_of (defaultConfiguration env) k)
   \<and> config (reset env True s) = config s
   \<and> trace (reset env onlyUI s) =
      trace s @ map (\<lambda>i. PageResetWidgets i (config (reset env onlyUI s))) [0..<pages s]
   \<and> \<not> m_configChanged (reset env onlyUI s)
   \<and> \<not> buttonBoxEnabled (reset env onlyUI s)
   \<and> files (reset env onlyUI s) = files s"
  using merge_layers [of "config s" "defaultConfiguration env" "localBackend env" k]
  by (simp add: reset_def emit_def clear_def Let_def)

theorem reset_layers_witness:
  "map_of (config (reset (sampleExternals True []) False (sampleWindow True))) ''Port'' = Some (VString ''5900'')
   \<and> map_of (config (reset (sampleExternals True []) False (sampleWindow True))) ''LogLevel'' = Some (VString ''4'')
   \<and> \<not> m_configChanged (reset (sampleExternals True []) True (sampleWindow True))
   \<and> config (reset (sampleExternals True []) True (sampleWindow True)) = [(''Port'', VString ''5900'')]"
proof -
  note port = reset_layers [of "sampleExternals True []" "sampleWindow True" "''Port''" True]
  note level = reset_layers [of "sampleExternals True []" "sampleWindow True" "''LogLevel''" True]
  from port have a: "map_of (config (reset (sampleExternals True []) False (sampleWindow True))) ''Port''
      = (case map_of (localBackend (sampleExternals True [])) ''Port'' of Some v \<Rightarrow> Some v
           | None \<Rightarrow> map_of (defaultConfiguration (sampleExternals True [])) ''Port'')"
    by blast
  from level have b: "map_of (config (reset (sampleExternals True []) False (sampleWindow True))) ''LogLevel''
      = (case map_of (localBackend (sampleExternals True [])) ''LogLevel'' of Some v \<Rightarrow> Some v
           | None \<Rightarrow> map_of (defaultConfiguration (sampleExternals True [])) ''LogLevel'')"
    by blast
  from port have c: "\<not> m_configChanged (reset (sampleExternals True []) True (sampleWindow True))"
    by blast
  from port have d: "config (reset (sampleExternals True []) True (sampleWindow True)) = config (sampleWindow True)"
    by blast
  from a b c d show ?thesis
    by (simp add: sample_layers sample_window)
qed

text \<open>
  C6. Loading from a non-empty chosen path is the store's load into the live snapshot,
  then \<open>reset(true)\<close>, then \<open>configurationChanged\<close>: the snapshot is what the store
  left, the pages are reset against it, and afterwards the dirty flag is set and the
  button box enabled.
\<close>
theorem loadSettingsFromFile_sequence:
  "chosen \<noteq> [] \<Longrightarrow>
     config (loadSettingsFromFile env chosen s) = jsonLoad env (files s chosen) (config s)
   \<and> trace (loadSettingsFromFile env chosen s) =
       trace s @ [GetOpenFileName, JsonStoreLoad System chosen]
         @ map (\<lambda>i. PageResetWidgets i (jsonLoad env (files s chosen) (config s))) [0..<pages s]
   \<and> loadSettingsFromFile env chosen s =
       configurationChanged (reset env True
         (signalled (loadEmits env)
           ((emit [GetOpenFileName, JsonStoreLoad System chosen] s)
              \<lparr>config := jsonLoad env (files s chosen) (config s)\<rparr>)))
   \<and> m_configChanged (loadSettingsFromFile env chosen s)
   \<and> buttonBoxEnabled (loadSettingsFromFile env chosen s)
   \<and> files (loadSettingsFromFile env chosen s) = files s"
  by (simp add: loadSettingsFromFile_def window_defs Let_def)

theorem loadSettingsFromFile_sequence_witness:
  "''lab.json'' \<noteq> []
   \<and> m_configChanged (loadSettingsFromFile (sampleExternals True []) ''lab.json'' (sampleWindow False))
   \<and> buttonBoxEnabled (loadSettingsFromFile (sampleExternals True []) ''lab.json'' (sampleWindow False))
   \<and> config (loadSettingsFromFile (sampleExternals True []) ''lab.json''
        ((sampleWindow False)\<lparr>files := (\<lambda>_. Some [(''Port'', VString ''1'')])\<rparr>)) = [(''Port'', VString ''1'')]"
proof -
  have n: "''lab.json'' \<noteq> []" by simp
  note plain = loadSettingsFromFile_sequence [OF n, of "sampleExternals True []" "sampleWindow False"]
  note onDisk = loadSettingsFromFile_sequence [OF n, of "sampleExternals True []"
             "(sampleWindow False)\<lparr>files := (\<lambda>_. Some [(''Port'', VString ''1'')])\<rparr>"]
  from plain have a: "m_configChanged (loadSettingsFromFile (sampleExternals True []) ''lab.json'' (sampleWindow False))"
    by blast
  from plain have b: "buttonBoxEnabled (loadSettingsFromFile (sampleExternals True []) ''lab.json'' (sampleWindow False))"
    by blast
  from onDisk have "config (loadSettingsFromFile (sampleExternals True []) ''lab.json''
        ((sampleWindow False)\<lparr>files := (\<lambda>_. Some [(''Port'', VString ''1'')])\<rparr>))
      = jsonLoad (sampleExternals True [])
          (files ((sampleWindow False)\<lparr>files := (\<lambda>_. Some [(''Port'', VString ''1'')])\<rparr>) ''lab.json'')
          (config ((sampleWindow False)\<lparr>files := (\<lambda>_. Some [(''Port'', VString ''1'')])\<rparr>))"
    by blast
  then have c: "config (loadSettingsFromFile (sampleExternals True []) ''lab.json''
        ((sampleWindow False)\<lparr>files := (\<lambda>_. Some [(''Port'', VString ''1'')])\<rparr>)) = [(''Port'', VString ''1'')]"
    by (simp add: sample_layers)
  from n a b c show ?thesis by blast
qed

text \<open>
  C7. After construction the snapshot is the merge of \<open>reset(false)\<close>, and the dirty
  flag and the button box are on exactly when the local backend has fewer keys than that
  snapshot.
\<close>
theorem MainWindow_ctor_startup_policy:
  "config (MainWindow_ctor env pre) =
      merge_data (merge_data [] (defaultConfiguration env)) (localBackend env)
   \<and> m_configChanged (MainWindow_ctor env pre) =
      (data_size (localBackend env) < data_size (config (MainWindow_ctor env pre)))
   \<and> buttonBoxEnabled (MainWindow_ctor env pre) =
      (data_size (localBackend env) < data_size (config (MainWindow_ctor env pre)))"
  by (simp add: MainWindow_ctor_def window_defs clear_def Let_def)

theorem MainWindow_ctor_startup_policy_witness:
  "data_size (localBackend (sampleExternals True [])) = 1
   \<and> data_size (config (MainWindow_ctor (sampleExternals True []) (sampleWindow False))) = 2
   \<and> m_configChanged (MainWindow_ctor (sampleExternals True []) (sampleWindow False))
   \<and> \<not> m_configChanged (MainWindow_ctor
          ((sampleExternals True [])\<lparr>defaultConfiguration := [(''Port'', VString ''11100'')]\<rparr>)
          (sampleWindow True))"
  using MainWindow_ctor_startup_policy [of "sampleExternals True []" "sampleWindow False"]
        MainWindow_ctor_startup_policy
          [of "(sampleExternals True [])\<lparr>defaultConfiguration := [(''Port'', VString ''11100'')]\<rparr>"
              "sampleWindow True"]
  by (simp add: sample_layers merge_data_def data_size_def)

text \<open>
  C8. A close request is accepted exactly when the dirty flag is clear or the answer to
  the question is Yes. While dirty, any other answer ignores the event after the
  question; while clean, the event is accepted with no question. Snapshot, dirty flag,
  button box and files are as before in every case.
\<close>
theorem closeEvent_veto:
  "fst (closeEvent answer s) = (\<not> m_configChanged s \<or> answer = QMessageBox_Yes)
   \<and> (m_configChanged s \<and> fst (closeEvent answer s) \<longrightarrow> answer = QMessageBox_Yes)
   \<and> (m_configChanged s \<and> answer \<noteq> QMessageBox_Yes \<longrightarrow>
        closeEvent answer s = (False, s\<lparr>trace := trace s @ [MessageBoxQuestion, CloseEventIgnore]\<rparr>))
   \<and> (m_configChanged s \<and> answer = QMessageBox_Yes \<longrightarrow>
        closeEvent answer s = (True, s\<lparr>trace := trace s @ [MessageBoxQuestion, CloseEventAccept]\<rparr>))
   \<and> (\<not> m_configChanged s \<longrightarrow>
        closeEvent answer s = (True, s\<lparr>trace := trace s @ [CloseEventAccept]\<rparr>))
   \<and> config (snd (closeEvent answer s)) = config s
   \<and> m_configChanged (snd (closeEvent answer s)) = m_configChanged s
   \<and> buttonBoxEnabled (snd (closeEvent answer s)) = buttonBoxEnabled s
   \<and> files (snd (closeEvent answer s)) = files s"
  by (simp add: closeEvent_def emit_def Let_def)

theorem closeEvent_veto_witness:
  "m_configChanged (sampleWindow True) \<and> QMessageBox_No \<noteq> QMessageBox_Yes
   \<and> \<not> fst (closeEvent QMessageBox_No (sampleWindow True))
   \<and> \<not> fst (closeEvent 0 (sampleWindow True))
   \<and> fst (closeEvent QMessageBox_Yes (sampleWindow True))
   \<and> \<not> m_configChanged (sampleWindow False)
   \<and> closeEvent QMessageBox_No (sampleWindow False) = (True, (sampleWindow False)\<lparr>trace := [CloseEventAccept]\<rparr>)"
  using closeEvent_veto [of QMessageBox_No "sampleWindow True"]
        closeEvent_veto [of 0 "sampleWindow True"]
        closeEvent_veto [of QMessageBox_Yes "sampleWindow True"]
        closeEvent_veto [of QMessageBox_No "sampleWindow False"]
  by (simp add: sample_window QMessageBox_No_def QMessageBox_Yes_def)

text \<open>
  C9. With an empty dialog result, each of the three actions does nothing beyond
  showing its dialog: no store is read or written, no message is shown, and snapshot,
  dirty flag, button box and files are unchanged.
\<close>
theorem cancelled_dialog_abandons:
  "loadSettingsFromFile env [] s = s\<lparr>trace := trace s @ [GetOpenFileName]\<rparr>
   \<and> saveSettingsToFile env [] s = s\<lparr>trace := trace s @ [GetSaveFileName]\<rparr>
   \<and> generateBugReportArchive env [] s = s\<lparr>trace := trace s @ [FileSystemBrowserExec]\<rparr>"
  by (simp add: loadSettingsFromFile_def saveSettingsToFile_def generateBugReportArchive_def
      emit_def Let_def)

theorem cancelled_dialog_abandons_witness:
  "m_configChanged (loadSettingsFromFile (sampleExternals True []) [] (sampleWindow True))
   \<and> config (saveSettingsToFile (sampleExternals True []) [] (sampleWindow True)) = [(''Port'', VString ''5900'')]
   \<and> trace (generateBugReportArchive (sampleExternals True []) [] (sampleWindow True)) = [FileSystemBrowserExec]"
  using cancelled_dialog_abandons [of "sampleExternals True []" "sampleWindow True"]
  by (simp add: sample_window)

lemma ctor_in_sync:
  "buttonBoxEnabled (MainWindow_ctor env pre) = m_configChanged (MainWindow_ctor env pre)"
  by (simp add: MainWindow_ctor_def window_defs Let_def)

lemma step_in_sync:
  "buttonBoxEnabled s = m_configChanged s \<Longrightarrow>
   buttonBoxEnabled (step s a) = m_configChanged (step s a)"
proof (cases a)
  case (Pair env act)
  assume sync: "buttonBoxEnabled s = m_configChanged s"
  show ?thesis
  proof (cases act)
    case (Reset b)
    with Pair show ?thesis by (simp add: window_defs Let_def)
  next
    case Apply
    with Pair sync show ?thesis by (simp add: window_defs Let_def)
  next
    case ConfigurationChanged
    with Pair show ?thesis by (simp add: window_defs)
  next
    case (ResetOrApply btn)
    with Pair sync show ?thesis by (simp add: resetOrApply_def window_defs Let_def)
  next
    case (LoadSettingsFromFile chosen)
    with Pair sync show ?thesis by (simp add: loadSettingsFromFile_def window_defs Let_def)
  next
    case (SaveSettingsToFile chosen)
    with Pair sync show ?thesis by (simp add: saveSettingsToFile_def window_defs Let_def)
  next
    case (GenerateBugReportArchive chosen)
    with Pair sync show ?thesis by (simp add: generateBugReportArchive_def window_defs Let_def)
  next
    case (CloseEvent answer)
    with Pair sync show ?thesis by (simp add: closeEvent_def window_defs Let_def)
  qed
qed

lemma foldl_step_in_sync:
  "buttonBoxEnabled s = m_configChanged s \<Longrightarrow>
   buttonBoxEnabled (foldl step s acts) = m_configChanged (foldl step s acts)"
  by (induction acts arbitrary: s) (simp_all add: step_in_sync)

text \<open>
  C10. After the constructor and any sequence of operations, with any collaborators at
  each step, the button box is enabled exactly when the dirty flag is set. \<open>reset\<close>,
  \<open>configurationChanged\<close>, a successful \<open>apply\<close>, and a load or save with a non-empty
  path bring the two in step from any state.
\<close>
theorem button_box_follows_dirty_flag:
  "buttonBoxEnabled (run (MainWindow_ctor env pre) acts)
     = m_configChanged (run (MainWindow_ctor env pre) acts)
   \<and> buttonBoxEnabled (reset env onlyUI s) = m_configChanged (reset env onlyUI s)
   \<and> buttonBoxEnabled (configurationChanged s) = m_configChanged (configurationChanged s)
   \<and> (applyConfiguration env (config s) \<longrightarrow>
        buttonBoxEnabled (apply_window env s) = m_configChanged (apply_window env s))
   \<and> (chosen \<noteq> [] \<longrightarrow>
        buttonBoxEnabled (loadSettingsFromFile env chosen s) = m_configChanged (loadSettingsFromFile env chosen s)
      \<and> buttonBoxEnabled (saveSettingsToFile env chosen s) = m_configChanged (saveSettingsToFile env chosen s))"
proof -
  have "buttonBoxEnabled (run (MainWindow_ctor env pre) acts)
     = m_configChanged (run (MainWindow_ctor env pre) acts)"
    unfolding run_def by (rule foldl_step_in_sync) (rule ctor_in_sync)
  then show ?thesis
    by (simp add: loadSettingsFromFile_def saveSettingsToFile_def window_defs Let_def)
qed

theorem button_box_follows_dirty_flag_witness:
  "m_configChanged (run (MainWindow_ctor (sampleExternals False []) (sampleWindow False))
      [(sampleExternals False [], Apply), (sampleExternals True [], SaveSettingsToFile ''x'')])
   \<and> buttonBoxEnabled (run (MainWindow_ctor (sampleExternals False []) (sampleWindow False))
      [(sampleExternals False [], Apply), (sampleExternals True [], SaveSettingsToFile ''x'')])"
proof -
  have "m_configChanged (run (MainWindow_ctor (sampleExternals False []) (sampleWindow False))
      [(sampleExternals False [], Apply), (sampleExternals True [], SaveSettingsToFile ''x'')])"
    by (simp add: run_def MainWindow_ctor_def saveSettingsToFile_def window_defs Let_def
        sample_layers data_size_def merge_data_def clear_def)
  with button_box_follows_dirty_flag [of "sampleExternals False []" "sampleWindow False"
      "[(sampleExternals False [], Apply), (sampleExternals True [], SaveSettingsToFile ''x'')]"]
  show ?thesis by simp
qed

subsection \<open>The bug report document\<close>


lemma group_update_other: "g' \<noteq> g \<Longrightarrow> group g' (AList.update g v d) = group g' d"
  by (simp add: group_def update_conv')




lemma group_setValue_other: "g \<noteq> p \<Longrightarrow> group g (setValue key val p d) = group g d"
  by (simp add: setValue_def group_update_other)



























text \<open>
  Two matching files of one base name, here \<open>ItalcCore.1.log\<close> and \<open>ItalcCore.log\<close> in
  the log directory, leave a single entry: the second call of \<^verbatim>\<open>setValue\<close> replaces what
  the first one stored, although the loop is there to take in all log files.
\<close>

lemma log_files_sharing_a_base_name:
  "logFiles (sampleExternals True [''ItalcCore.1.log'', ''ItalcCore.log'']) (config (sampleWindow False))
     = [''/var/log/italc/ItalcCore.1.log'', ''/var/log/italc/ItalcCore.log'']
   \<and> group ''LogFiles''
         (bugReportObject (sampleExternals True [''ItalcCore.1.log'', ''ItalcCore.log''])
            (config (sampleWindow False)))
       = [(''ItalcCore'', VBytes ''b64(z(contents of /var/log/italc/ItalcCore.log))'')]"
  by code_simp

end
